theory Spec2Isabelle
  imports Main "HOL-Library.Word" "HOL-Library.Sublist"
begin

unbundle bit_operations_syntax

section \<open>CloudStorageUploader: an embedding of cloud\_storage\_uploader.py\<close>

text \<open>
  The module holds one class, \<open>CloudStorageUploader\<close>, with a constructor, the query
  \<open>enabled\<close> and the method \<open>upload_obj\<close>. The method derives an object name from
  the path of the audio file and a fresh UUID, writes the file to the object store,
  removes it from disk and records the outcome in the caller's metadata dictionary.

  Strings are \<open>char list\<close>. The functions of the Python standard library that the
  method calls (\<open>os.path.basename\<close>, \<open>os.path.splitext\<close>, \<open>str.replace\<close>,
  \<open>uuid.uuid4\<close>, \<open>str\<close> of a UUID and of an integer) are modelled after the
  library's own code for POSIX paths.
\<close>

subsection \<open>Library functions on strings\<close>

text \<open>\<open>p.rfind(c)\<close>: the highest index at which \<open>c\<close> occurs, or \<open>-1\<close>.\<close>

definition rfind :: "string \<Rightarrow> char \<Rightarrow> int" where
  "rfind p c =
     (if c \<in> set p
      then int (length p) - 1 - int (length (takeWhile (\<lambda>x. x \<noteq> c) (rev p)))
      else - 1)"

text \<open>
  \<open>posixpath.basename\<close>:
  \<^verbatim>\<open>i = p.rfind('/') + 1; return p[i:]\<close>
\<close>

definition basename :: "string \<Rightarrow> string" where
  "basename p = (let i = rfind p CHR ''/'' + 1 in drop (nat i) p)"

text \<open>
  \<open>genericpath._splitext\<close>, called by \<open>posixpath.splitext\<close> with separator \<open>/\<close>, no
  alternative separator and extension separator \<open>.\<close>:
  \<^verbatim>\<open>
  sepIndex = p.rfind(sep)
  dotIndex = p.rfind(extsep)
  if dotIndex > sepIndex:
      # skip all leading dots
      filenameIndex = sepIndex + 1
      while filenameIndex < dotIndex:
          if p[filenameIndex] != extsep:
              return p[:dotIndex], p[dotIndex:]
          filenameIndex += 1
  return p, ''
  \<close>
  The loop is \<open>splitext_loop\<close>; it answers whether the loop body reaches its
  \<open>return\<close>.
\<close>

function splitext_loop :: "string \<Rightarrow> nat \<Rightarrow> nat \<Rightarrow> bool" where
  "splitext_loop p filenameIndex dotIndex =
     (if filenameIndex < dotIndex
      then (if p ! filenameIndex \<noteq> CHR ''.'' then True
            else splitext_loop p (Suc filenameIndex) dotIndex)
      else False)"
  by pat_completeness auto
termination
  by (relation "measure (\<lambda>(p, filenameIndex, dotIndex). dotIndex - filenameIndex)") auto

declare splitext_loop.simps [simp del]

definition splitext :: "string \<Rightarrow> string \<times> string" where
  "splitext p =
     (let sepIndex = rfind p CHR ''/'';
          dotIndex = rfind p CHR ''.''
      in if dotIndex > sepIndex \<and> splitext_loop p (nat (sepIndex + 1)) (nat dotIndex)
         then (take (nat dotIndex) p, drop (nat dotIndex) p)
         else (p, []))"

text \<open>\<open>s.replace(" ", "-")\<close>: every space becomes a hyphen.\<close>

definition replace_space :: "string \<Rightarrow> string" where
  "replace_space s = map (\<lambda>c. if c = CHR '' '' then CHR ''-'' else c) s"

text \<open>\<open>s[-2:]\<close>: the last two characters, or all of \<open>s\<close> when it is shorter.\<close>

definition last_two :: "string \<Rightarrow> string" where
  "last_two s = drop (length s - 2) s"

subsection \<open>UUIDs\<close>

text \<open>
  \<open>uuid.uuid4()\<close> draws 16 random bytes and builds a UUID of version 4 from them:
  \<^verbatim>\<open>
  int &= ~(0xc000 << 48)
  int |= 0x8000 << 48
  int &= ~(0xf000 << 64)
  int |= version << 76
  \<close>
  The random bytes are the argument of \<open>uuid4\<close>.
\<close>

definition uuid4 :: "128 word \<Rightarrow> 128 word" where
  "uuid4 rnd =
     (let i = rnd AND NOT (push_bit 48 0xc000);
          i = i OR push_bit 48 0x8000;
          i = i AND NOT (push_bit 64 0xf000);
          i = i OR push_bit 76 4
      in i)"

definition hexdigit :: "nat \<Rightarrow> char" where
  "hexdigit n = ''0123456789abcdef'' ! n"

text \<open>
  \<open>'%0kx' % n\<close> for \<open>n < 16 ^ k\<close>: \<open>k\<close> lowercase hexadecimal digits. The digits below
  ten are the decimal digits, which \<open>str_nat\<close> uses.
\<close>

fun hex_digits :: "nat \<Rightarrow> nat \<Rightarrow> string" where
  "hex_digits 0 n = []"
| "hex_digits (Suc k) n = hex_digits k (n div 16) @ [hexdigit (n mod 16)]"

text \<open>
  \<open>UUID.__str__\<close>:
  \<^verbatim>\<open>
  hex = '%032x' % self.int
  return '%s-%s-%s-%s-%s' % (hex[:8], hex[8:12], hex[12:16], hex[16:20], hex[20:])
  \<close>
\<close>

definition str_uuid :: "128 word \<Rightarrow> string" where
  "str_uuid u =
     (let hex = hex_digits 32 (unat u)
      in take 8 hex @ ''-'' @ take 4 (drop 8 hex) @ ''-'' @ take 4 (drop 12 hex) @ ''-''
         @ take 4 (drop 16 hex) @ ''-'' @ drop 20 hex)"

subsection \<open>Python values and \<open>%s\<close>\<close>

text \<open>
  The values of the metadata dictionary: strings and integers. \<open>'%s' % v\<close> is
  \<open>str(v)\<close>: a string itself, an integer in decimal.
\<close>

datatype pyval = PyStr string | PyInt int

function str_nat :: "nat \<Rightarrow> string" where
  "str_nat n = (if n < 10 then [hexdigit n] else str_nat (n div 10) @ [hexdigit (n mod 10)])"
  by pat_completeness auto
termination
  by (relation "measure id") auto

declare str_nat.simps [simp del]

definition py_str :: "pyval \<Rightarrow> string" where
  "py_str v = (case v of PyStr s \<Rightarrow> s
               | PyInt i \<Rightarrow> (if i < 0 then ''-'' @ str_nat (nat (- i)) else str_nat (nat i)))"

subsection \<open>The object name\<close>

text \<open>
  Lines 65 to 82 of \<open>upload_obj\<close>, with the value of \<open>metadata['file_prefix']\<close> and the
  string of the fresh UUID as arguments:
  \<^verbatim>\<open>
  file_base_name = os.path.basename(audio_file_path)
  file_name, extension = os.path.splitext(file_base_name)
  file_name = file_name.replace(" ", "-")
  unique_id = str(uuid.uuid4())
  unique_id_prefix = unique_id[-2:]
  resource_id = "%s/%s/%s_%s%s" % (metadata['file_prefix'], unique_id_prefix,
                                   file_name, unique_id, extension)
  \<close>
\<close>

definition resource_id_of :: "pyval \<Rightarrow> string \<Rightarrow> string \<Rightarrow> string" where
  "resource_id_of file_prefix audio_file_path unique_id =
     (let file_base_name = basename audio_file_path;
          (file_name, extension) = splitext file_base_name;
          file_name = replace_space file_name;
          unique_id_prefix = last_two unique_id
      in py_str file_prefix @ ''/'' @ unique_id_prefix @ ''/'' @ file_name @ ''_''
         @ unique_id @ extension)"

subsection \<open>Exceptions\<close>

text \<open>
  What the object store's client library raises is opaque to the module: a
  \<open>store_fault\<close>. The exceptions of a call are those of the standard library
  (\<open>KeyError\<close> of a dictionary, \<open>IOError\<close> of \<open>open\<close>, \<open>OSError\<close> of \<open>os\<close>,
  \<open>NoSectionError\<close> and \<open>NoOptionError\<close> of the configuration parser) and the store's
  own, which pass through the method as they are. \<open>InvalidRequestError\<close> and
  \<open>UploadError\<close> are the error kinds of the specification; no statement of the module
  raises them.
\<close>

datatype store_fault = NoAuthHandlerFound | S3ResponseError nat | SocketError string

datatype exn =
    KeyError string
  | IOError string
  | OSError string
  | NoSectionError string
  | NoOptionError string string
  | StoreException store_fault
  | InvalidRequestError
  | UploadError store_fault

subsection \<open>The constructor and \<open>enabled\<close>\<close>

text \<open>
  The configuration object: sections of options. \<open>config.get(section, option)\<close>
  raises when the section or the option is missing.
\<close>

type_synonym config = "string \<rightharpoonup> (string \<rightharpoonup> string)"

definition config_get :: "config \<Rightarrow> string \<Rightarrow> string \<Rightarrow> exn + string" where
  "config_get config section option =
     (case config section of
        None \<Rightarrow> Inl (NoSectionError section)
      | Some opts \<Rightarrow>
          (case opts option of
             None \<Rightarrow> Inl (NoOptionError option section)
           | Some v \<Rightarrow> Inr v))"

definition STORAGE_BACKEND_FILE :: string where
  "STORAGE_BACKEND_FILE = ''file''"

record uploader =
  self_storage_backend :: string
  self_host :: string
  self_bucket :: string
  self_api_key :: string
  self_api_key_secret :: string

definition init :: "config \<Rightarrow> exn + uploader" where
  "init config =
     (case config_get config ''current_backend'' ''storage_backend'' of
        Inl e \<Rightarrow> Inl e
      | Inr CLOUD_STORAGE_CONFIG_SECTION \<Rightarrow>
          if CLOUD_STORAGE_CONFIG_SECTION = STORAGE_BACKEND_FILE
          then Inr \<lparr>self_storage_backend = CLOUD_STORAGE_CONFIG_SECTION,
                    self_host = [], self_bucket = [], self_api_key = [],
                    self_api_key_secret = []\<rparr>
          else
            (case config_get config CLOUD_STORAGE_CONFIG_SECTION ''host'' of
               Inl e \<Rightarrow> Inl e
             | Inr h \<Rightarrow>
            (case config_get config CLOUD_STORAGE_CONFIG_SECTION ''bucket'' of
               Inl e \<Rightarrow> Inl e
             | Inr b \<Rightarrow>
            (case config_get config CLOUD_STORAGE_CONFIG_SECTION ''api_key'' of
               Inl e \<Rightarrow> Inl e
             | Inr k \<Rightarrow>
            (case config_get config CLOUD_STORAGE_CONFIG_SECTION ''api_key_secret'' of
               Inl e \<Rightarrow> Inl e
             | Inr s \<Rightarrow>
                 Inr \<lparr>self_storage_backend = CLOUD_STORAGE_CONFIG_SECTION,
                      self_host = h, self_bucket = b, self_api_key = k,
                      self_api_key_secret = s\<rparr>)))))"

text \<open>
  \<open>enabled\<close> returns its answer together with the object it was called on, so that
  what it does to the object is part of its result.
\<close>

definition enabled :: "uploader \<Rightarrow> bool \<times> uploader" where
  "enabled self = (if self_storage_backend self = ''file'' then (False, self) else (True, self))"

subsection \<open>The world of a call\<close>

text \<open>
  A call of \<open>upload_obj\<close> acts on the files on disk (path to contents), on the objects
  of the store (bucket and key to the \<open>filename\<close> metadata entry and the contents) and
  on the dictionaries of the Python heap (the metadata argument is a reference to
  one). Every request to the store's client and every logged message is appended to
  \<open>trace\<close>.
\<close>

datatype event =
    Connect string string string
  | GetBucket string
  | PutObject string string string string
  | LogInfo string

type_synonym dict = "string \<rightharpoonup> pyval"

record world =
  fs :: "string \<rightharpoonup> string"
  objects :: "string \<times> string \<rightharpoonup> string \<times> string"
  heap :: "nat \<Rightarrow> dict"
  trace :: "event list"

text \<open>
  What the module cannot decide is the environment's: whether the store's client
  raises at a connection, at a bucket lookup or at a write, and whether the operating
  system lets a file be removed.
\<close>

record env =
  connect_fault :: "string \<Rightarrow> string \<Rightarrow> string \<Rightarrow> store_fault option"
  bucket_fault :: "string \<Rightarrow> store_fault option"
  put_fault :: "string \<Rightarrow> string \<Rightarrow> store_fault option"
  removable :: "string \<Rightarrow> bool"

definition emit :: "event \<Rightarrow> world \<Rightarrow> world" where
  "emit e w = w\<lparr>trace := trace w @ [e]\<rparr>"

text \<open>\<open>S3Connection(api_key, api_key_secret, host=host)\<close>\<close>

definition S3Connection ::
  "env \<Rightarrow> string \<Rightarrow> string \<Rightarrow> string \<Rightarrow> world \<Rightarrow> (exn + unit) \<times> world" where
  "S3Connection en api_key api_key_secret host w =
     (case connect_fault en api_key api_key_secret host of
        Some f \<Rightarrow> (Inl (StoreException f), emit (Connect api_key api_key_secret host) w)
      | None \<Rightarrow> (Inr (), emit (Connect api_key api_key_secret host) w))"

text \<open>\<open>conn.get_bucket(name)\<close>\<close>

definition get_bucket :: "env \<Rightarrow> string \<Rightarrow> world \<Rightarrow> (exn + unit) \<times> world" where
  "get_bucket en name w =
     (case bucket_fault en name of
        Some f \<Rightarrow> (Inl (StoreException f), emit (GetBucket name) w)
      | None \<Rightarrow> (Inr (), emit (GetBucket name) w))"

text \<open>
  \<open>key.set_contents_from_filename(path)\<close> on a key of the bucket with name \<open>key\<close> and
  the metadata entry \<open>filename\<close>: the file is opened first (\<open>IOError\<close> when it does not
  exist), then sent.
\<close>

definition set_contents_from_filename ::
  "env \<Rightarrow> string \<Rightarrow> string \<Rightarrow> string \<Rightarrow> string \<Rightarrow> world \<Rightarrow> (exn + unit) \<times> world" where
  "set_contents_from_filename en bucket key filename path w =
     (case fs w path of
        None \<Rightarrow> (Inl (IOError path), w)
      | Some contents \<Rightarrow>
          (case put_fault en bucket key of
             Some f \<Rightarrow> (Inl (StoreException f), emit (PutObject bucket key filename contents) w)
           | None \<Rightarrow>
               (Inr (), emit (PutObject bucket key filename contents)
                          (w\<lparr>objects := (objects w)((bucket, key) \<mapsto> (filename, contents))\<rparr>))))"

text \<open>\<open>os.path.getsize(path)\<close>\<close>

definition getsize :: "string \<Rightarrow> world \<Rightarrow> exn + int" where
  "getsize path w =
     (case fs w path of None \<Rightarrow> Inl (OSError path) | Some contents \<Rightarrow> Inr (int (length contents)))"

text \<open>\<open>os.remove(path)\<close>\<close>

definition os_remove :: "env \<Rightarrow> string \<Rightarrow> world \<Rightarrow> (exn + unit) \<times> world" where
  "os_remove en path w =
     (if path \<in> dom (fs w) \<and> removable en path
      then (Inr (), w\<lparr>fs := (fs w)(path := None)\<rparr>)
      else (Inl (OSError path), w))"

text \<open>\<open>d[k] = v\<close> on the dictionary at reference \<open>d\<close>\<close>

definition setitem :: "nat \<Rightarrow> string \<Rightarrow> pyval \<Rightarrow> world \<Rightarrow> world" where
  "setitem d k v w = w\<lparr>heap := (heap w)(d := (heap w d)(k \<mapsto> v))\<rparr>"

subsection \<open>\<open>upload_obj\<close>\<close>

text \<open>
  The statements of the method in their order. \<open>rnd\<close> is the randomness that
  \<open>uuid.uuid4()\<close> draws; \<open>metadata\<close> is the reference of the caller's dictionary, and
  the method returns a reference.
\<close>

definition upload_obj ::
  "env \<Rightarrow> uploader \<Rightarrow> 128 word \<Rightarrow> string \<Rightarrow> nat \<Rightarrow> world \<Rightarrow> (exn + nat) \<times> world" where
  "upload_obj en self rnd audio_file_path metadata w =
     (let file_base_name = basename audio_file_path;
          unique_id = str_uuid (uuid4 rnd)
      in case heap w metadata ''file_prefix'' of
           None \<Rightarrow> (Inl (KeyError ''file_prefix''), w)
         | Some file_prefix \<Rightarrow>
     (let resource_id = resource_id_of file_prefix audio_file_path unique_id
      in case S3Connection en (self_api_key self) (self_api_key_secret self) (self_host self) w of
           (Inl e, w1) \<Rightarrow> (Inl e, w1)
         | (Inr conn, w1) \<Rightarrow>
     (case get_bucket en (self_bucket self) w1 of
           (Inl e, w2) \<Rightarrow> (Inl e, w2)
         | (Inr bucket, w2) \<Rightarrow>
     (case set_contents_from_filename en (self_bucket self) resource_id file_base_name
             audio_file_path w2 of
           (Inl e, w3) \<Rightarrow> (Inl e, w3)
         | (Inr u, w3) \<Rightarrow>
     (case getsize audio_file_path w3 of
           Inl e \<Rightarrow> (Inl e, w3)
         | Inr filesize \<Rightarrow>
     (let w4 = setitem metadata ''filesize'' (PyInt filesize) w3;
          w5 = (case os_remove en audio_file_path w4 of
                  (Inl e, w') \<Rightarrow>
                    emit (LogInfo (''Could not remove '' @ audio_file_path
                                   @ '' from organize directory'')) w'
                | (Inr u, w') \<Rightarrow> w');
          w6 = setitem metadata ''filename'' (PyStr file_base_name) w5;
          w7 = setitem metadata ''resource_id'' (PyStr resource_id) w6;
          w8 = setitem metadata ''storage_backend'' (PyStr (self_storage_backend self)) w7
      in (Inr metadata, w8)))))))"

subsection \<open>The extension in the words of the specification\<close>

text \<open>
  ``The part of the base filename from its last dot onward'': the last dot and
  what follows it, nothing when the name has no dot. It is compared with the second
  component of \<open>splitext\<close> below.
\<close>

definition from_last_dot :: "string \<Rightarrow> string" where
  "from_last_dot b =
     (if CHR ''.'' \<in> set b then CHR ''.'' # rev (takeWhile (\<lambda>x. x \<noteq> CHR ''.'') (rev b)) else [])"

subsection \<open>Example inputs\<close>

text \<open>
  An environment in which the store accepts every request and every file may be
  removed, one in which the write is refused, and one in which the file may not be
  removed.
\<close>

definition example_env :: env where
  "example_env = \<lparr>connect_fault = (\<lambda>k s h. None), bucket_fault = (\<lambda>b. None),
                   put_fault = (\<lambda>b k. None), removable = (\<lambda>p. True)\<rparr>"

definition example_env_put_refused :: env where
  "example_env_put_refused = \<lparr>connect_fault = (\<lambda>k s h. None), bucket_fault = (\<lambda>b. None),
                   put_fault = (\<lambda>b k. Some (S3ResponseError 500)), removable = (\<lambda>p. True)\<rparr>"

definition example_env_no_remove :: env where
  "example_env_no_remove = \<lparr>connect_fault = (\<lambda>k s h. None), bucket_fault = (\<lambda>b. None),
                   put_fault = (\<lambda>b k. None), removable = (\<lambda>p. False)\<rparr>"

text \<open>A configuration for a remote backend and one for the backend \<open>file\<close>.\<close>

definition example_config_s3 :: config where
  "example_config_s3 =
     [''current_backend'' \<mapsto> [''storage_backend'' \<mapsto> ''amazon_S3''],
      ''amazon_S3'' \<mapsto> [''host'' \<mapsto> ''s3.amazonaws.com'', ''bucket'' \<mapsto> ''airtime'',
                       ''api_key'' \<mapsto> ''AK'', ''api_key_secret'' \<mapsto> ''SK'']]"

definition example_config_file :: config where
  "example_config_file = [''current_backend'' \<mapsto> [''storage_backend'' \<mapsto> ''file'']]"

definition example_self_s3 :: uploader where
  "example_self_s3 = \<lparr>self_storage_backend = ''amazon_S3'', self_host = ''s3.amazonaws.com'',
                       self_bucket = ''airtime'', self_api_key = ''AK'',
                       self_api_key_secret = ''SK''\<rparr>"

definition example_self_file :: uploader where
  "example_self_file = \<lparr>self_storage_backend = ''file'', self_host = [],
                       self_bucket = [], self_api_key = [], self_api_key_secret = []\<rparr>"

text \<open>
  A world with the file \<open>/tmp/My Song.mp3\<close> of 10 bytes, an empty store, the
  dictionary \<open>{'file_prefix': 'stations/42', 'title': 'My Song'}\<close> at reference 0 and
  empty dictionaries elsewhere.
\<close>

definition example_world :: world where
  "example_world =
     \<lparr>fs = [''/tmp/My Song.mp3'' \<mapsto> ''0123456789''],
      objects = Map.empty,
      heap = (\<lambda>d. Map.empty)
               (0 := [''file_prefix'' \<mapsto> PyStr ''stations/42'', ''title'' \<mapsto> PyStr ''My Song'']),
      trace = []\<rparr>"

section \<open>Facts about the library functions\<close>

lemma hex_digits_numeral:
  "hex_digits (numeral k) n = hex_digits (pred_numeral k) (n div 16) @ [hexdigit (n mod 16)]"
  by (subst numeral_eq_Suc) (rule hex_digits.simps)

lemma length_hex_digits: "length (hex_digits k n) = k"
  by (induction k arbitrary: n) simp_all

lemma hexdigit_inj: "i < 16 \<Longrightarrow> j < 16 \<Longrightarrow> hexdigit i = hexdigit j \<Longrightarrow> i = j"
proof -
  assume ij: "i < 16" "j < 16" and eq: "hexdigit i = hexdigit j"
  have d: "distinct ''0123456789abcdef''" by simp
  have l: "length ''0123456789abcdef'' = 16" by simp
  from ij eq show "i = j"
    unfolding hexdigit_def using nth_eq_iff_index_eq [OF d, of i j] l by simp
qed

lemma hexdigit_not_space: "i < 16 \<Longrightarrow> hexdigit i \<noteq> CHR '' ''"
proof -
  assume "i < 16"
  then have "hexdigit i \<in> set ''0123456789abcdef''"
    unfolding hexdigit_def by (intro nth_mem) simp
  then show ?thesis by auto
qed

lemma space_notin_hex_digits: "CHR '' '' \<notin> set (hex_digits k n)"
proof (induction k arbitrary: n)
  case 0
  then show ?case by simp
next
  case (Suc k)
  have "hexdigit (n mod 16) \<noteq> CHR '' ''" by (rule hexdigit_not_space) simp
  with Suc show ?case by auto
qed

lemma hex_digits_inj:
  "a < 16 ^ k \<Longrightarrow> b < 16 ^ k \<Longrightarrow> hex_digits k a = hex_digits k b \<Longrightarrow> a = b"
proof (induction k arbitrary: a b)
  case 0
  then show ?case by simp
next
  case (Suc k)
  from Suc.prems(3) have q: "hex_digits k (a div 16) = hex_digits k (b div 16)"
    and r: "hexdigit (a mod 16) = hexdigit (b mod 16)"
    by simp_all
  have "a div 16 < 16 ^ k" "b div 16 < 16 ^ k"
    using Suc.prems(1,2) by (simp_all add: less_mult_imp_div_less mult.commute)
  then have "a div 16 = b div 16" using q by (intro Suc.IH)
  moreover from r have "a mod 16 = b mod 16" by (intro hexdigit_inj) simp_all
  ultimately show ?case by (metis div_mult_mod_eq)
qed

lemma length_str_uuid: "length (str_uuid u) = 36"
  by (simp add: str_uuid_def Let_def length_hex_digits)

lemma space_notin_str_uuid: "CHR '' '' \<notin> set (str_uuid u)"
proof -
  have "\<And>n xs. CHR '' '' \<notin> set xs \<Longrightarrow> CHR '' '' \<notin> set (take n xs)"
    "\<And>n xs. CHR '' '' \<notin> set xs \<Longrightarrow> CHR '' '' \<notin> set (drop n xs)"
    by (auto dest: in_set_takeD in_set_dropD)
  then show ?thesis
    by (simp add: str_uuid_def Let_def space_notin_hex_digits)
qed

lemma take_drop_append: "take n (drop m xs) @ drop (n + m) xs = drop m xs"
  by (simp flip: drop_drop)

lemma hex_of_str_uuid:
  "hex_digits 32 (unat u) =
     take 8 (str_uuid u) @ take 4 (drop 9 (str_uuid u)) @ take 4 (drop 14 (str_uuid u))
     @ take 4 (drop 19 (str_uuid u)) @ drop 24 (str_uuid u)"
proof -
  define h where "h = hex_digits 32 (unat u)"
  have l: "length h = 32" by (simp add: h_def length_hex_digits)
  have s: "str_uuid u = take 8 h @ ''-'' @ take 4 (drop 8 h) @ ''-'' @ take 4 (drop 12 h)
      @ ''-'' @ take 4 (drop 16 h) @ ''-'' @ drop 20 h"
    by (simp add: str_uuid_def h_def Let_def)
  have "take 8 h @ take 4 (drop 8 h) @ take 4 (drop 12 h) @ take 4 (drop 16 h) @ drop 20 h = h"
    using take_drop_append [of 4 16 h] take_drop_append [of 4 12 h] take_drop_append [of 4 8 h]
    by simp
  moreover have "take 8 (str_uuid u) = take 8 h" by (simp add: s l)
  moreover have "take 4 (drop 9 (str_uuid u)) = take 4 (drop 8 h)" by (simp add: s l)
  moreover have "take 4 (drop 14 (str_uuid u)) = take 4 (drop 12 h)" by (simp add: s l)
  moreover have "take 4 (drop 19 (str_uuid u)) = take 4 (drop 16 h)" by (simp add: s l)
  moreover have "drop 24 (str_uuid u) = drop 20 h" by (simp add: s l)
  ultimately show ?thesis by (simp add: h_def)
qed

lemma str_uuid_inj: "str_uuid u = str_uuid v \<Longrightarrow> u = v"
proof -
  assume "str_uuid u = str_uuid v"
  then have "hex_digits 32 (unat u) = hex_digits 32 (unat v)"
    by (simp add: hex_of_str_uuid)
  moreover have "unat u < 16 ^ 32" "unat v < 16 ^ 32"
    using unsigned_less [of u] unsigned_less [of v] by simp_all
  ultimately have "unat u = unat v" by (rule hex_digits_inj [rotated 2])
  then show "u = v" by (simp add: word_unat_eq_iff)
qed

lemma rfind_absent: "c \<notin> set p \<Longrightarrow> rfind p c = - 1"
  by (simp add: rfind_def)

lemma length_takeWhile_rev_less:
  assumes "c \<in> set p"
  shows "length (takeWhile (\<lambda>x. x \<noteq> c) (rev p)) < length p"
proof -
  let ?t = "takeWhile (\<lambda>x. x \<noteq> c) (rev p)"
  have "?t \<noteq> rev p" using assms by auto
  moreover have "length ?t = length (rev p) \<Longrightarrow> ?t = rev p"
    using takeWhile_eq_take [of "\<lambda>x. x \<noteq> c" "rev p"] by simp
  moreover have "length ?t \<le> length (rev p)" by (rule length_takeWhile_le)
  ultimately have "length ?t < length (rev p)" by (meson le_neq_implies_less)
  then show ?thesis by simp
qed

lemma rfind_present:
  "c \<in> set p \<Longrightarrow> nat (rfind p c) = length p - 1 - length (takeWhile (\<lambda>x. x \<noteq> c) (rev p))"
  using length_takeWhile_rev_less [of c p] by (simp add: rfind_def)

lemma rfind_nonneg_iff: "0 \<le> rfind p c \<longleftrightarrow> c \<in> set p"
  using length_takeWhile_rev_less [of c p] by (simp add: rfind_def)

lemma drop_last_run:
  "drop (length p - length (takeWhile P (rev p))) p = rev (takeWhile P (rev p))"
proof -
  have "rev (takeWhile P (rev p)) = rev (take (length (takeWhile P (rev p))) (rev p))"
    using takeWhile_eq_take [of P "rev p"] by simp
  also have "\<dots> = drop (length p - length (takeWhile P (rev p))) p"
    by (simp add: take_rev)
  finally show ?thesis by simp
qed

lemma drop_rfind:
  assumes "c \<in> set p"
  shows "drop (nat (rfind p c)) p = c # rev (takeWhile (\<lambda>x. x \<noteq> c) (rev p))"
proof -
  let ?k = "length (takeWhile (\<lambda>x. x \<noteq> c) (rev p))"
  have k: "?k < length p" using assms by (rule length_takeWhile_rev_less)
  have n: "nat (rfind p c) = length p - 1 - ?k" using assms by (rule rfind_present)
  have "rev p ! ?k = c"
    using nth_length_takeWhile [of "\<lambda>x. x \<noteq> c" "rev p"] k by simp
  then have c: "p ! (length p - 1 - ?k) = c"
    using k by (simp add: rev_nth)
  have "drop (length p - 1 - ?k) p = p ! (length p - 1 - ?k) # drop (Suc (length p - 1 - ?k)) p"
    using k by (intro Cons_nth_drop_Suc [symmetric]) simp
  moreover have "Suc (length p - 1 - ?k) = length p - ?k" using k by simp
  ultimately show ?thesis using c n drop_last_run [of p "\<lambda>x. x \<noteq> c"] by simp
qed

lemma basename_no_sep: "CHR ''/'' \<notin> set (basename p)"
proof (cases "CHR ''/'' \<in> set p")
  case False
  then show ?thesis by (simp add: basename_def rfind_absent)
next
  case True
  let ?k = "length (takeWhile (\<lambda>x. x \<noteq> CHR ''/'') (rev p))"
  have k: "?k < length p" using True by (rule length_takeWhile_rev_less)
  have "nat (rfind p CHR ''/'' + 1) = length p - ?k"
    using k True by (simp add: rfind_def)
  then have "basename p = rev (takeWhile (\<lambda>x. x \<noteq> CHR ''/'') (rev p))"
    by (simp add: basename_def drop_last_run)
  then show ?thesis by (auto dest: set_takeWhileD)
qed

lemma splitext_loop_iff:
  "splitext_loop p i d \<longleftrightarrow> (\<exists>j. i \<le> j \<and> j < d \<and> p ! j \<noteq> CHR ''.'')"
proof (induction p i d rule: splitext_loop.induct)
  case (1 p i d)
  show ?case
  proof (cases "i < d")
    case False
    then show ?thesis by (subst splitext_loop.simps) auto
  next
    case True
    show ?thesis
    proof (cases "p ! i \<noteq> CHR ''.''")
      case True
      with \<open>i < d\<close> show ?thesis by (subst splitext_loop.simps) auto
    next
      case False
      then have "splitext_loop p i d = splitext_loop p (Suc i) d"
        using \<open>i < d\<close> by (subst splitext_loop.simps) simp
      also have "\<dots> \<longleftrightarrow> (\<exists>j. Suc i \<le> j \<and> j < d \<and> p ! j \<noteq> CHR ''.'')"
        using "1.IH" \<open>i < d\<close> False by simp
      also have "\<dots> \<longleftrightarrow> (\<exists>j. i \<le> j \<and> j < d \<and> p ! j \<noteq> CHR ''.'')"
      proof
        assume "\<exists>j. Suc i \<le> j \<and> j < d \<and> p ! j \<noteq> CHR ''.''"
        then obtain j where "Suc i \<le> j" "j < d" "p ! j \<noteq> CHR ''.''" by blast
        then have "i \<le> j \<and> j < d \<and> p ! j \<noteq> CHR ''.''" by simp
        then show "\<exists>j. i \<le> j \<and> j < d \<and> p ! j \<noteq> CHR ''.''" by blast
      next
        assume "\<exists>j. i \<le> j \<and> j < d \<and> p ! j \<noteq> CHR ''.''"
        then obtain j where j: "i \<le> j" "j < d" "p ! j \<noteq> CHR ''.''" by blast
        with False have "j \<noteq> i" by auto
        with j have "Suc i \<le> j \<and> j < d \<and> p ! j \<noteq> CHR ''.''" by simp
        then show "\<exists>j. Suc i \<le> j \<and> j < d \<and> p ! j \<noteq> CHR ''.''" by blast
      qed
      finally show ?thesis .
    qed
  qed
qed

lemma splitext_loop_take:
  assumes "d \<le> length p"
  shows "splitext_loop p 0 d \<longleftrightarrow> (\<exists>c \<in> set (take d p). c \<noteq> CHR ''.'')"
proof -
  have l: "length (take d p) = d" using assms by simp
  have "(\<exists>c \<in> set (take d p). c \<noteq> CHR ''.'') \<longleftrightarrow> (\<exists>j. j < d \<and> p ! j \<noteq> CHR ''.'')"
  proof
    assume "\<exists>c \<in> set (take d p). c \<noteq> CHR ''.''"
    then obtain c where c: "c \<in> set (take d p)" "c \<noteq> CHR ''.''" by blast
    from c(1) obtain j where "j < length (take d p)" "take d p ! j = c"
      unfolding in_set_conv_nth by blast
    with l c(2) have "j < d \<and> p ! j \<noteq> CHR ''.''" by simp
    then show "\<exists>j. j < d \<and> p ! j \<noteq> CHR ''.''" by blast
  next
    assume "\<exists>j. j < d \<and> p ! j \<noteq> CHR ''.''"
    then obtain j where j: "j < d" "p ! j \<noteq> CHR ''.''" by blast
    from j(1) l have "take d p ! j \<in> set (take d p)" by (intro nth_mem) simp
    moreover from j have "take d p ! j \<noteq> CHR ''.''" by simp
    ultimately show "\<exists>c \<in> set (take d p). c \<noteq> CHR ''.''" by blast
  qed
  then show ?thesis by (simp add: splitext_loop_iff)
qed

lemma splitext_append: "fst (splitext p) @ snd (splitext p) = p"
  by (simp add: splitext_def Let_def)

lemma splitext_basename:
  "splitext (basename p) =
     (let b = basename p; d = nat (rfind b CHR ''.'')
      in if \<exists>c \<in> set (take d b). c \<noteq> CHR ''.'' then (take d b, from_last_dot b) else (b, []))"
proof -
  let ?b = "basename p"
  let ?d = "nat (rfind ?b CHR ''.'')"
  have sep: "rfind ?b CHR ''/'' = - 1" by (simp add: rfind_absent basename_no_sep)
  show ?thesis
  proof (cases "CHR ''.'' \<in> set ?b")
    case False
    then have "rfind ?b CHR ''.'' = - 1" by (rule rfind_absent)
    then show ?thesis by (simp add: splitext_def sep Let_def)
  next
    case True
    then have nn: "rfind ?b CHR ''.'' > - 1" using rfind_nonneg_iff [of ?b "CHR ''.''"] by simp
    have le: "?d \<le> length ?b" using True by (simp add: rfind_present)
    have "drop ?d ?b = from_last_dot ?b" using True by (simp add: from_last_dot_def drop_rfind)
    then show ?thesis
      using nn splitext_loop_take [OF le] by (simp add: splitext_def sep Let_def)
  qed
qed

section \<open>Facts about \<open>upload_obj\<close>\<close>

lemma emit_simps [simp]:
  "fs (emit e w) = fs w" "objects (emit e w) = objects w" "heap (emit e w) = heap w"
  "trace (emit e w) = trace w @ [e]"
  by (simp_all add: emit_def)

lemma setitem_simps [simp]:
  "fs (setitem d k v w) = fs w" "objects (setitem d k v w) = objects w"
  "trace (setitem d k v w) = trace w"
  "heap (setitem d k v w) = (heap w)(d := (heap w d)(k \<mapsto> v))"
  by (simp_all add: setitem_def)

lemma upload_obj_no_prefix:
  "heap w metadata ''file_prefix'' = None \<Longrightarrow>
   upload_obj en self rnd p metadata w = (Inl (KeyError ''file_prefix''), w)"
  by (simp add: upload_obj_def)

lemma upload_obj_connect_fault:
  assumes "heap w metadata ''file_prefix'' = Some fp"
    and "connect_fault en (self_api_key self) (self_api_key_secret self) (self_host self) = Some f"
  shows "upload_obj en self rnd p metadata w =
    (Inl (StoreException f),
     emit (Connect (self_api_key self) (self_api_key_secret self) (self_host self)) w)"
  using assms by (simp add: upload_obj_def S3Connection_def)

lemma upload_obj_bucket_fault:
  assumes "heap w metadata ''file_prefix'' = Some fp"
    and "connect_fault en (self_api_key self) (self_api_key_secret self) (self_host self) = None"
    and "bucket_fault en (self_bucket self) = Some f"
  shows "upload_obj en self rnd p metadata w =
    (Inl (StoreException f),
     emit (GetBucket (self_bucket self))
       (emit (Connect (self_api_key self) (self_api_key_secret self) (self_host self)) w))"
  using assms by (simp add: upload_obj_def S3Connection_def get_bucket_def)


lemma upload_obj_put_fault:
  assumes "heap w metadata ''file_prefix'' = Some fp"
    and "connect_fault en (self_api_key self) (self_api_key_secret self) (self_host self) = None"
    and "bucket_fault en (self_bucket self) = None"
    and "fs w p = Some c"
    and "put_fault en (self_bucket self) (resource_id_of fp p (str_uuid (uuid4 rnd))) = Some f"
  shows "upload_obj en self rnd p metadata w =
    (Inl (StoreException f),
     emit (PutObject (self_bucket self) (resource_id_of fp p (str_uuid (uuid4 rnd)))
             (basename p) c)
       (emit (GetBucket (self_bucket self))
         (emit (Connect (self_api_key self) (self_api_key_secret self) (self_host self)) w)))"
  using assms
  by (simp add: upload_obj_def S3Connection_def get_bucket_def set_contents_from_filename_def)

lemma upload_obj_success:
  assumes "heap w metadata ''file_prefix'' = Some fp"
    and "connect_fault en (self_api_key self) (self_api_key_secret self) (self_host self) = None"
    and "bucket_fault en (self_bucket self) = None"
    and "fs w p = Some c"
    and "put_fault en (self_bucket self) (resource_id_of fp p (str_uuid (uuid4 rnd))) = None"
  shows "fst (upload_obj en self rnd p metadata w) = Inr metadata"
    and "fs (snd (upload_obj en self rnd p metadata w)) =
           (if removable en p then (fs w)(p := None) else fs w)"
    and "objects (snd (upload_obj en self rnd p metadata w)) =
           (objects w)((self_bucket self, resource_id_of fp p (str_uuid (uuid4 rnd)))
              \<mapsto> (basename p, c))"
    and "heap (snd (upload_obj en self rnd p metadata w)) =
           (heap w)(metadata := (heap w metadata)
               (''filesize'' \<mapsto> PyInt (int (length c)),
                ''filename'' \<mapsto> PyStr (basename p),
                ''resource_id'' \<mapsto> PyStr (resource_id_of fp p (str_uuid (uuid4 rnd))),
                ''storage_backend'' \<mapsto> PyStr (self_storage_backend self)))"
    and "trace (snd (upload_obj en self rnd p metadata w)) =
           trace w @
           [Connect (self_api_key self) (self_api_key_secret self) (self_host self),
            GetBucket (self_bucket self),
            PutObject (self_bucket self) (resource_id_of fp p (str_uuid (uuid4 rnd)))
              (basename p) c] @
           (if removable en p then []
            else [LogInfo (''Could not remove '' @ p @ '' from organize directory'')])"
  using assms
  by (simp_all add: upload_obj_def S3Connection_def get_bucket_def
      set_contents_from_filename_def getsize_def os_remove_def Let_def domI)

lemma upload_obj_returns:
  assumes "fst (upload_obj en self rnd p metadata w) = Inr a"
  shows "\<exists>fp c. heap w metadata ''file_prefix'' = Some fp
    \<and> connect_fault en (self_api_key self) (self_api_key_secret self) (self_host self) = None
    \<and> bucket_fault en (self_bucket self) = None
    \<and> fs w p = Some c
    \<and> put_fault en (self_bucket self) (resource_id_of fp p (str_uuid (uuid4 rnd))) = None"
  using assms
  by (auto simp add: upload_obj_def S3Connection_def get_bucket_def set_contents_from_filename_def
      getsize_def Let_def split: option.splits sum.splits prod.splits)

section \<open>Facts about the object name\<close>

lemma resource_id_of_eq:
  "resource_id_of fp p tok =
     py_str fp @ ''/'' @ last_two tok @ ''/'' @ replace_space (fst (splitext (basename p)))
     @ ''_'' @ tok @ snd (splitext (basename p))"
  by (simp add: resource_id_of_def Let_def split_beta)

lemma last_two_str_uuid:
  "last_two (str_uuid u) = drop 34 (str_uuid u)" "length (last_two (str_uuid u)) = 2"
  by (simp_all add: last_two_def length_str_uuid)

lemma space_notin_replace_space: "CHR '' '' \<notin> set (replace_space s)"
  by (auto simp add: replace_space_def)

lemma example_basename: "basename ''/tmp/My Song.mp3'' = ''My Song.mp3''"
  by (simp add: basename_def rfind_def)

lemma example_splitext: "splitext ''My Song.mp3'' = (''My Song'', ''.mp3'')"
  by (simp add: splitext_def rfind_def splitext_loop.simps)

lemma example_str_uuid: "str_uuid (uuid4 0) = ''00000000-0000-4000-8000-000000000000''"
  by (simp add: str_uuid_def uuid4_def hex_digits_numeral hexdigit_def)

lemma example_resource_id:
  "resource_id_of (PyStr ''stations/42'') ''/tmp/My Song.mp3'' (str_uuid (uuid4 0)) =
     ''stations/42/00/My-Song_00000000-0000-4000-8000-000000000000.mp3''"
  by (simp add: resource_id_of_eq example_basename example_splitext example_str_uuid
      py_str_def last_two_def replace_space_def)

lemma example_init_s3: "init example_config_s3 = Inr example_self_s3"
  by (simp add: init_def config_get_def example_config_s3_def example_self_s3_def
      STORAGE_BACKEND_FILE_def)

lemma example_init_file: "init example_config_file = Inr example_self_file"
  by (simp add: init_def config_get_def example_config_file_def example_self_file_def
      STORAGE_BACKEND_FILE_def)

lemma init_storage_backend:
  "init config = Inr self \<Longrightarrow>
   config_get config ''current_backend'' ''storage_backend'' = Inr (self_storage_backend self)"
  by (auto simp add: init_def split: sum.splits if_splits)


section \<open>Properties of the uploader\<close>

text \<open>
  C7. For every constructed uploader, \<open>enabled\<close> returns False exactly when the backend
  selector read from the configuration is \<open>file\<close> and True otherwise, and it leaves the
  uploader as it was.
\<close>

theorem enabled_false_iff_file:
  assumes "init config = Inr self"
  shows "fst (enabled self) =
           (config_get config ''current_backend'' ''storage_backend'' \<noteq> Inr ''file'')
         \<and> fst (enabled self) = (self_storage_backend self \<noteq> ''file'')
         \<and> snd (enabled self) = self"
  using init_storage_backend [OF assms] by (simp add: enabled_def)

theorem enabled_false_iff_file_witness:
  "init example_config_file = Inr example_self_file
   \<and> fst (enabled example_self_file) = False
   \<and> snd (enabled example_self_file) = example_self_file
   \<and> init example_config_s3 = Inr example_self_s3
   \<and> fst (enabled example_self_s3) = True"
proof -
  have f: "self_storage_backend example_self_file = ''file''"
    by (simp add: example_self_file_def)
  have s: "self_storage_backend example_self_s3 \<noteq> ''file''"
    by (simp add: example_self_s3_def)
  show ?thesis
    using enabled_false_iff_file [OF example_init_file]
      enabled_false_iff_file [OF example_init_s3] example_init_file example_init_s3 f s
    by auto
qed

text \<open>
  C3. When the metadata dictionary has no key \<open>file_prefix\<close>, \<open>upload_obj\<close> raises
  \<open>KeyError\<close> for that key (not \<open>InvalidRequestError\<close>), and the world is as before the
  call: nothing was requested from the store, no file and no dictionary changed.
\<close>

theorem upload_obj_missing_file_prefix:
  assumes "heap w metadata ''file_prefix'' = None"
  shows "upload_obj en self rnd p metadata w = (Inl (KeyError ''file_prefix''), w)"
  using assms by (rule upload_obj_no_prefix)

theorem upload_obj_missing_file_prefix_witness:
  "heap example_world 1 ''file_prefix'' = None
   \<and> upload_obj example_env example_self_s3 0 ''/tmp/My Song.mp3'' 1 example_world =
       (Inl (KeyError ''file_prefix''), example_world)"
proof -
  have h: "heap example_world 1 ''file_prefix'' = None" by (simp add: example_world_def)
  show ?thesis
    using h upload_obj_missing_file_prefix
      [OF h, of example_env example_self_s3 0 "''/tmp/My Song.mp3''"]
    by simp
qed

theorem upload_obj_missing_file_prefix_counterexample:
  "heap example_world 1 ''file_prefix'' = None
   \<and> fst (upload_obj example_env example_self_s3 0 ''/tmp/My Song.mp3'' 1 example_world)
       = Inl (KeyError ''file_prefix'')
   \<and> fst (upload_obj example_env example_self_s3 0 ''/tmp/My Song.mp3'' 1 example_world)
       \<noteq> Inl InvalidRequestError"
  by (simp add: upload_obj_def example_world_def)

lemma example_world_simps:
  "heap example_world 0 ''file_prefix'' = Some (PyStr ''stations/42'')"
  "heap example_world 0 ''title'' = Some (PyStr ''My Song'')"
  "fs example_world ''/tmp/My Song.mp3'' = Some ''0123456789''"
  "trace example_world = []"
  by (simp_all add: example_world_def)

text \<open>
  C4. With \<open>file_prefix\<close> present, when the connection, the bucket lookup or the write
  to the store raises, \<open>upload_obj\<close> raises that same exception (it is not wrapped in
  an \<open>UploadError\<close>), returns no metadata, and leaves the files on disk, the
  dictionaries and the objects of the store as they were.
\<close>

theorem upload_obj_store_fault:
  assumes "heap w metadata ''file_prefix'' = Some fp"
    and "connect_fault en (self_api_key self) (self_api_key_secret self) (self_host self) = Some f
       \<or> (connect_fault en (self_api_key self) (self_api_key_secret self) (self_host self) = None
          \<and> bucket_fault en (self_bucket self) = Some f)
       \<or> (connect_fault en (self_api_key self) (self_api_key_secret self) (self_host self) = None
          \<and> bucket_fault en (self_bucket self) = None
          \<and> fs w p = Some c
          \<and> put_fault en (self_bucket self) (resource_id_of fp p (str_uuid (uuid4 rnd))) = Some f)"
  shows "fst (upload_obj en self rnd p metadata w) = Inl (StoreException f)
       \<and> fs (snd (upload_obj en self rnd p metadata w)) = fs w
       \<and> heap (snd (upload_obj en self rnd p metadata w)) = heap w
       \<and> objects (snd (upload_obj en self rnd p metadata w)) = objects w"
  using assms(2)
proof (elim disjE conjE)
  assume "connect_fault en (self_api_key self) (self_api_key_secret self) (self_host self) = Some f"
  then show ?thesis
    by (simp add: upload_obj_connect_fault [OF assms(1)])
next
  assume "connect_fault en (self_api_key self) (self_api_key_secret self) (self_host self) = None"
    "bucket_fault en (self_bucket self) = Some f"
  then show ?thesis
    by (simp add: upload_obj_bucket_fault [OF assms(1)])
next
  assume "connect_fault en (self_api_key self) (self_api_key_secret self) (self_host self) = None"
    "bucket_fault en (self_bucket self) = None" "fs w p = Some c"
    "put_fault en (self_bucket self) (resource_id_of fp p (str_uuid (uuid4 rnd))) = Some f"
  then show ?thesis
    by (simp add: upload_obj_put_fault [OF assms(1)])
qed

theorem upload_obj_store_fault_witness:
  "fst (upload_obj example_env_put_refused example_self_s3 0 ''/tmp/My Song.mp3'' 0 example_world)
     = Inl (StoreException (S3ResponseError 500))
   \<and> fs (snd (upload_obj example_env_put_refused example_self_s3 0 ''/tmp/My Song.mp3'' 0
        example_world)) ''/tmp/My Song.mp3'' = Some ''0123456789''
   \<and> heap (snd (upload_obj example_env_put_refused example_self_s3 0 ''/tmp/My Song.mp3'' 0
        example_world)) 0 ''resource_id'' = None"
proof -
  have a: "heap example_world 0 ''file_prefix'' = Some (PyStr ''stations/42'')"
    by (rule example_world_simps)
  have b: "connect_fault example_env_put_refused (self_api_key example_self_s3)
        (self_api_key_secret example_self_s3) (self_host example_self_s3) = Some (S3ResponseError 500)
     \<or> (connect_fault example_env_put_refused (self_api_key example_self_s3)
        (self_api_key_secret example_self_s3) (self_host example_self_s3) = None
        \<and> bucket_fault example_env_put_refused (self_bucket example_self_s3)
            = Some (S3ResponseError 500))
     \<or> (connect_fault example_env_put_refused (self_api_key example_self_s3)
        (self_api_key_secret example_self_s3) (self_host example_self_s3) = None
        \<and> bucket_fault example_env_put_refused (self_bucket example_self_s3) = None
        \<and> fs example_world ''/tmp/My Song.mp3'' = Some ''0123456789''
        \<and> put_fault example_env_put_refused (self_bucket example_self_s3)
             (resource_id_of (PyStr ''stations/42'') ''/tmp/My Song.mp3'' (str_uuid (uuid4 0)))
            = Some (S3ResponseError 500))"
    by (simp add: example_env_put_refused_def example_world_simps)
  show ?thesis
    using upload_obj_store_fault [OF a b] by (simp add: example_world_def)
qed

theorem upload_obj_store_fault_counterexample:
  "put_fault example_env_put_refused (self_bucket example_self_s3)
     ''stations/42/00/My-Song_00000000-0000-4000-8000-000000000000.mp3''
     = Some (S3ResponseError 500)
   \<and> fst (upload_obj example_env_put_refused example_self_s3 0 ''/tmp/My Song.mp3'' 0 example_world)
     = Inl (StoreException (S3ResponseError 500))
   \<and> fst (upload_obj example_env_put_refused example_self_s3 0 ''/tmp/My Song.mp3'' 0 example_world)
     \<noteq> Inl (UploadError (S3ResponseError 500))"
  by (simp add: upload_obj_def S3Connection_def get_bucket_def set_contents_from_filename_def
      example_env_put_refused_def example_world_def)

text \<open>
  C8. When the connection, the bucket lookup and the write succeed and \<open>os.remove\<close>
  then raises \<open>OSError\<close>, the exception is caught and logged: the call returns the
  metadata reference, the dictionary holds \<open>filesize\<close>, \<open>filename\<close>, \<open>resource_id\<close> and
  \<open>storage_backend\<close>, the file is still on disk and the last event is the log message.
\<close>

theorem upload_obj_remove_failure_swallowed:
  assumes "heap w metadata ''file_prefix'' = Some fp"
    and "connect_fault en (self_api_key self) (self_api_key_secret self) (self_host self) = None"
    and "bucket_fault en (self_bucket self) = None"
    and "fs w p = Some c"
    and "put_fault en (self_bucket self) (resource_id_of fp p (str_uuid (uuid4 rnd))) = None"
    and "fst (os_remove en p w) = Inl e"
  shows "fst (upload_obj en self rnd p metadata w) = Inr metadata
       \<and> heap (snd (upload_obj en self rnd p metadata w)) metadata ''filesize''
            = Some (PyInt (int (length c)))
       \<and> heap (snd (upload_obj en self rnd p metadata w)) metadata ''filename''
            = Some (PyStr (basename p))
       \<and> heap (snd (upload_obj en self rnd p metadata w)) metadata ''resource_id''
            = Some (PyStr (resource_id_of fp p (str_uuid (uuid4 rnd))))
       \<and> heap (snd (upload_obj en self rnd p metadata w)) metadata ''storage_backend''
            = Some (PyStr (self_storage_backend self))
       \<and> fs (snd (upload_obj en self rnd p metadata w)) = fs w
       \<and> last (trace (snd (upload_obj en self rnd p metadata w)))
            = LogInfo (''Could not remove '' @ p @ '' from organize directory'')"
proof -
  from assms(4,6) have r: "\<not> removable en p"
    by (auto simp add: os_remove_def split: if_splits)
  note s = upload_obj_success [OF assms(1-5)]
  show ?thesis using r by (simp add: s)
qed

theorem upload_obj_remove_failure_swallowed_witness:
  "fst (os_remove example_env_no_remove ''/tmp/My Song.mp3'' example_world)
     = Inl (OSError ''/tmp/My Song.mp3'')
   \<and> fst (upload_obj example_env_no_remove example_self_s3 0 ''/tmp/My Song.mp3'' 0 example_world)
     = Inr 0
   \<and> heap (snd (upload_obj example_env_no_remove example_self_s3 0 ''/tmp/My Song.mp3'' 0
        example_world)) 0 ''filesize'' = Some (PyInt 10)
   \<and> heap (snd (upload_obj example_env_no_remove example_self_s3 0 ''/tmp/My Song.mp3'' 0
        example_world)) 0 ''filename'' = Some (PyStr ''My Song.mp3'')
   \<and> heap (snd (upload_obj example_env_no_remove example_self_s3 0 ''/tmp/My Song.mp3'' 0
        example_world)) 0 ''resource_id''
       = Some (PyStr ''stations/42/00/My-Song_00000000-0000-4000-8000-000000000000.mp3'')
   \<and> heap (snd (upload_obj example_env_no_remove example_self_s3 0 ''/tmp/My Song.mp3'' 0
        example_world)) 0 ''storage_backend'' = Some (PyStr ''amazon_S3'')
   \<and> fs (snd (upload_obj example_env_no_remove example_self_s3 0 ''/tmp/My Song.mp3'' 0
        example_world)) ''/tmp/My Song.mp3'' = Some ''0123456789''"
proof -
  have a: "heap example_world 0 ''file_prefix'' = Some (PyStr ''stations/42'')"
    by (rule example_world_simps)
  have b: "connect_fault example_env_no_remove (self_api_key example_self_s3)
        (self_api_key_secret example_self_s3) (self_host example_self_s3) = None"
    by (simp add: example_env_no_remove_def)
  have c: "bucket_fault example_env_no_remove (self_bucket example_self_s3) = None"
    by (simp add: example_env_no_remove_def)
  have d: "fs example_world ''/tmp/My Song.mp3'' = Some ''0123456789''"
    by (rule example_world_simps)
  have e: "put_fault example_env_no_remove (self_bucket example_self_s3)
        (resource_id_of (PyStr ''stations/42'') ''/tmp/My Song.mp3'' (str_uuid (uuid4 0))) = None"
    by (simp add: example_env_no_remove_def)
  have f: "fst (os_remove example_env_no_remove ''/tmp/My Song.mp3'' example_world)
        = Inl (OSError ''/tmp/My Song.mp3'')"
    by (simp add: os_remove_def example_env_no_remove_def)
  show ?thesis
    using upload_obj_remove_failure_swallowed [OF a b c d e f] f
    by (simp add: example_resource_id example_basename example_self_s3_def example_world_simps)
qed

text \<open>
  C9. A call that returns, returns the reference it was given as \<open>metadata\<close>. The
  dictionary at that reference has gained the keys \<open>filesize\<close>, \<open>filename\<close>,
  \<open>resource_id\<close> and \<open>storage_backend\<close>, every other key of it has the value it had,
  and no other dictionary has changed.
\<close>

theorem upload_obj_returns_same_mapping:
  assumes "fst (upload_obj en self rnd p metadata w) = Inr a"
  shows "a = metadata
       \<and> dom (heap (snd (upload_obj en self rnd p metadata w)) a) =
           dom (heap w metadata)
           \<union> {''filesize'', ''filename'', ''resource_id'', ''storage_backend''}
       \<and> (\<forall>k. k \<notin> {''filesize'', ''filename'', ''resource_id'', ''storage_backend''} \<longrightarrow>
             heap (snd (upload_obj en self rnd p metadata w)) a k = heap w metadata k)
       \<and> (\<forall>d. d \<noteq> metadata \<longrightarrow> heap (snd (upload_obj en self rnd p metadata w)) d = heap w d)"
proof -
  from upload_obj_returns [OF assms] obtain fp c where
    h: "heap w metadata ''file_prefix'' = Some fp"
      "connect_fault en (self_api_key self) (self_api_key_secret self) (self_host self) = None"
      "bucket_fault en (self_bucket self) = None"
      "fs w p = Some c"
      "put_fault en (self_bucket self) (resource_id_of fp p (str_uuid (uuid4 rnd))) = None"
    by blast
  note s = upload_obj_success [OF h]
  from assms s(1) have "a = metadata" by simp
  then show ?thesis by (auto simp add: s(4))
qed

theorem upload_obj_returns_same_mapping_witness:
  "fst (upload_obj example_env example_self_s3 0 ''/tmp/My Song.mp3'' 0 example_world) = Inr 0
   \<and> heap (snd (upload_obj example_env example_self_s3 0 ''/tmp/My Song.mp3'' 0 example_world))
       0 ''title'' = Some (PyStr ''My Song'')
   \<and> heap (snd (upload_obj example_env example_self_s3 0 ''/tmp/My Song.mp3'' 0 example_world))
       0 ''file_prefix'' = Some (PyStr ''stations/42'')
   \<and> heap (snd (upload_obj example_env example_self_s3 0 ''/tmp/My Song.mp3'' 0 example_world))
       1 = Map.empty"
proof -
  have r: "fst (upload_obj example_env example_self_s3 0 ''/tmp/My Song.mp3'' 0 example_world)
      = Inr 0"
    by (rule upload_obj_success(1) [of _ _ "PyStr ''stations/42''" _ _ _ "''0123456789''"])
      (simp_all add: example_world_simps example_env_def)
  have t: "''title'' \<notin> {''filesize'', ''filename'', ''resource_id'', ''storage_backend''}"
    and f: "''file_prefix'' \<notin> {''filesize'', ''filename'', ''resource_id'', ''storage_backend''}"
    and d: "(1::nat) \<noteq> 0"
    by simp_all
  have e: "heap example_world 1 = Map.empty" by (simp add: example_world_def)
  from upload_obj_returns_same_mapping [OF r] t f d show ?thesis
    using r example_world_simps(1,2) e by metis
qed





lemma drop_34_str_uuid:
  "drop 34 (str_uuid u) = [str_uuid u ! 34, str_uuid u ! 35]"
proof -
  have l: "length (str_uuid u) = 36" by (rule length_str_uuid)
  have "drop 34 (str_uuid u) = str_uuid u ! 34 # drop 35 (str_uuid u)"
    using l Cons_nth_drop_Suc [of 34 "str_uuid u"] by simp
  moreover have "drop 35 (str_uuid u) = str_uuid u ! 35 # drop 36 (str_uuid u)"
    using l Cons_nth_drop_Suc [of 35 "str_uuid u"] by simp
  ultimately show ?thesis using l by simp
qed

text \<open>
  C5. The string of the UUID has 36 characters, and the object name is the value of
  \<open>file_prefix\<close>, a slash, the last two characters of that string, a slash, the stem
  of the base filename with hyphens for spaces, an underscore, the string of the UUID
  and the extension. A call that returns has stored this name under \<open>resource_id\<close>.
\<close>

theorem resource_id_form:
  "length (str_uuid (uuid4 rnd)) = 36
   \<and> resource_id_of fp p (str_uuid (uuid4 rnd)) =
       py_str fp @ ''/'' @ [str_uuid (uuid4 rnd) ! 34, str_uuid (uuid4 rnd) ! 35] @ ''/''
       @ replace_space (fst (splitext (basename p))) @ ''_'' @ str_uuid (uuid4 rnd)
       @ snd (splitext (basename p))
   \<and> (heap w metadata ''file_prefix'' = Some fp
        \<and> fst (upload_obj en self rnd p metadata w) = Inr a \<longrightarrow>
        heap (snd (upload_obj en self rnd p metadata w)) a ''resource_id''
          = Some (PyStr (resource_id_of fp p (str_uuid (uuid4 rnd)))))"
proof -
  have "resource_id_of fp p (str_uuid (uuid4 rnd)) =
       py_str fp @ ''/'' @ [str_uuid (uuid4 rnd) ! 34, str_uuid (uuid4 rnd) ! 35] @ ''/''
       @ replace_space (fst (splitext (basename p))) @ ''_'' @ str_uuid (uuid4 rnd)
       @ snd (splitext (basename p))"
    by (simp add: resource_id_of_eq last_two_str_uuid(1) drop_34_str_uuid)
  moreover have "heap (snd (upload_obj en self rnd p metadata w)) a ''resource_id''
          = Some (PyStr (resource_id_of fp p (str_uuid (uuid4 rnd))))"
    if h: "heap w metadata ''file_prefix'' = Some fp"
      and r: "fst (upload_obj en self rnd p metadata w) = Inr a"
  proof -
    from upload_obj_returns [OF r] h obtain c where
      k: "connect_fault en (self_api_key self) (self_api_key_secret self) (self_host self) = None"
        "bucket_fault en (self_bucket self) = None"
        "fs w p = Some c"
        "put_fault en (self_bucket self) (resource_id_of fp p (str_uuid (uuid4 rnd))) = None"
      by auto
    note s = upload_obj_success [OF h k]
    from r s(1) have "a = metadata" by simp
    then show ?thesis by (simp add: s(4))
  qed
  ultimately show ?thesis by (simp add: length_str_uuid)
qed

theorem resource_id_form_witness:
  "heap example_world 0 ''file_prefix'' = Some (PyStr ''stations/42'')
   \<and> fst (upload_obj example_env example_self_s3 0 ''/tmp/My Song.mp3'' 0 example_world) = Inr 0
   \<and> heap (snd (upload_obj example_env example_self_s3 0 ''/tmp/My Song.mp3'' 0 example_world))
       0 ''resource_id''
       = Some (PyStr ''stations/42/00/My-Song_00000000-0000-4000-8000-000000000000.mp3'')"
proof -
  have r: "fst (upload_obj example_env example_self_s3 0 ''/tmp/My Song.mp3'' 0 example_world)
      = Inr 0"
    by (rule upload_obj_success(1) [of _ _ "PyStr ''stations/42''" _ _ _ "''0123456789''"])
      (simp_all add: example_world_simps example_env_def)
  show ?thesis
    using resource_id_form [of 0 "PyStr ''stations/42''" "''/tmp/My Song.mp3''" example_world 0
        example_env example_self_s3 0] r example_world_simps(1)
    by (simp add: example_resource_id)
qed

text \<open>
  C6. Two different UUIDs give two different object names for the same path and the
  same \<open>file_prefix\<close>.
\<close>

theorem resource_id_distinct_tokens:
  assumes "u \<noteq> v"
  shows "resource_id_of fp p (str_uuid u) \<noteq> resource_id_of fp p (str_uuid v)"
proof
  assume "resource_id_of fp p (str_uuid u) = resource_id_of fp p (str_uuid v)"
  then have "last_two (str_uuid u) @ ''/'' @ replace_space (fst (splitext (basename p))) @ ''_''
        @ str_uuid u @ snd (splitext (basename p))
      = last_two (str_uuid v) @ ''/'' @ replace_space (fst (splitext (basename p))) @ ''_''
        @ str_uuid v @ snd (splitext (basename p))"
    by (simp add: resource_id_of_eq)
  then have "str_uuid u @ snd (splitext (basename p)) = str_uuid v @ snd (splitext (basename p))"
    by (simp add: last_two_str_uuid(2))
  then have "str_uuid u = str_uuid v" by simp
  then have "u = v" by (rule str_uuid_inj)
  with assms show False by simp
qed

theorem resource_id_distinct_tokens_witness:
  "uuid4 0 \<noteq> uuid4 1
   \<and> resource_id_of (PyStr ''stations/42'') ''/tmp/My Song.mp3'' (str_uuid (uuid4 0))
     \<noteq> resource_id_of (PyStr ''stations/42'') ''/tmp/My Song.mp3'' (str_uuid (uuid4 1))"
proof -
  have d: "uuid4 0 \<noteq> uuid4 1" by (simp add: uuid4_def)
  show ?thesis
    using d resource_id_distinct_tokens
      [OF d, of "PyStr ''stations/42''" "''/tmp/My Song.mp3''"]
    by simp
qed

lemma space_notin_last_two_str_uuid: "CHR '' '' \<notin> set (last_two (str_uuid u))"
  using space_notin_str_uuid [of u] by (auto simp add: last_two_def dest: in_set_dropD)

lemma count_space_middle:
  "count_list (''/'' @ last_two (str_uuid u) @ ''/'' @ replace_space s @ ''_'' @ str_uuid u)
     CHR '' '' = 0"
  by (simp add: count_list_0_iff space_notin_last_two_str_uuid space_notin_replace_space
      space_notin_str_uuid)

lemma example_space_prefix_resource_id:
  "resource_id_of (PyStr ''my station'') ''/tmp/My Song.mp3'' (str_uuid (uuid4 0)) =
     ''my station/00/My-Song_00000000-0000-4000-8000-000000000000.mp3''"
  by (simp add: resource_id_of_eq example_basename example_splitext example_str_uuid
      py_str_def last_two_def replace_space_def)

lemma example_hidden_basename: "basename ''/tmp/.my file'' = ''.my file''"
  by (simp add: basename_def rfind_def)

lemma example_hidden_splitext: "splitext ''.my file'' = (''.my file'', [])"
  by (simp add: splitext_def rfind_def splitext_loop.simps)

lemma example_hidden_resource_id:
  "resource_id_of (PyStr ''stations/42'') ''/tmp/.my file'' (str_uuid (uuid4 0)) =
     ''stations/42/00/.my-file_00000000-0000-4000-8000-000000000000''"
  by (simp add: resource_id_of_eq example_hidden_basename example_hidden_splitext
      example_str_uuid py_str_def last_two_def replace_space_def)

lemma example_spaced_ext_basename: "basename ''/tmp/My Song.m p3'' = ''My Song.m p3''"
  by (simp add: basename_def rfind_def)

lemma example_spaced_ext_splitext: "splitext ''My Song.m p3'' = (''My Song'', ''.m p3'')"
  by (simp add: splitext_def rfind_def splitext_loop.simps)

lemma example_spaced_ext_resource_id:
  "resource_id_of (PyStr ''my station'') ''/tmp/My Song.m p3'' (str_uuid (uuid4 0)) =
     ''my station/00/My-Song_00000000-0000-4000-8000-000000000000.m p3''"
  by (simp add: resource_id_of_eq example_spaced_ext_basename example_spaced_ext_splitext
      example_str_uuid py_str_def last_two_def replace_space_def)

text \<open>
  C2. The object name ends with the extension of the base filename as \<open>splitext\<close>
  returns it, and it contains no space when neither the value of \<open>file_prefix\<close> nor
  that extension contains one.
\<close>

theorem resource_id_extension_and_spaces:
  "suffix (snd (splitext (basename p))) (resource_id_of fp p (str_uuid (uuid4 rnd)))
   \<and> (CHR '' '' \<notin> set (py_str fp) \<and> CHR '' '' \<notin> set (snd (splitext (basename p))) \<longrightarrow>
        CHR '' '' \<notin> set (resource_id_of fp p (str_uuid (uuid4 rnd))))"
proof -
  have "suffix (snd (splitext (basename p))) (resource_id_of fp p (str_uuid (uuid4 rnd)))"
    unfolding resource_id_of_eq suffix_def
    by (rule exI [of _ "py_str fp @ ''/'' @ last_two (str_uuid (uuid4 rnd)) @ ''/''
        @ replace_space (fst (splitext (basename p))) @ ''_'' @ str_uuid (uuid4 rnd)"]) simp
  moreover have "CHR '' '' \<notin> set (resource_id_of fp p (str_uuid (uuid4 rnd)))"
    if "CHR '' '' \<notin> set (py_str fp)" "CHR '' '' \<notin> set (snd (splitext (basename p)))"
    using that
    by (simp add: resource_id_of_eq space_notin_last_two_str_uuid space_notin_replace_space
        space_notin_str_uuid)
  ultimately show ?thesis by blast
qed

theorem resource_id_extension_and_spaces_witness:
  "CHR '' '' \<notin> set (py_str (PyStr ''stations/42''))
   \<and> snd (splitext (basename ''/tmp/My Song.mp3'')) = ''.mp3''
   \<and> CHR '' '' \<notin> set ''.mp3''
   \<and> suffix ''.mp3''
        (resource_id_of (PyStr ''stations/42'') ''/tmp/My Song.mp3'' (str_uuid (uuid4 0)))
   \<and> CHR '' '' \<notin>
        set (resource_id_of (PyStr ''stations/42'') ''/tmp/My Song.mp3'' (str_uuid (uuid4 0)))"
proof -
  have a: "CHR '' '' \<notin> set (py_str (PyStr ''stations/42''))" by (simp add: py_str_def)
  have b: "snd (splitext (basename ''/tmp/My Song.mp3'')) = ''.mp3''"
    by (simp add: example_basename example_splitext)
  have c: "CHR '' '' \<notin> set ''.mp3''" by simp
  show ?thesis
    using resource_id_extension_and_spaces [of "''/tmp/My Song.mp3''" "PyStr ''stations/42''" 0]
      a b c
    by simp
qed

theorem resource_id_extension_and_spaces_counterexample:
  "resource_id_of (PyStr ''my station'') ''/tmp/My Song.mp3'' (str_uuid (uuid4 0)) =
     ''my station/00/My-Song_00000000-0000-4000-8000-000000000000.mp3''
   \<and> CHR '' '' \<in>
        set (resource_id_of (PyStr ''my station'') ''/tmp/My Song.mp3'' (str_uuid (uuid4 0)))"
  by (simp add: example_space_prefix_resource_id)

text \<open>
  C10. The extension that \<open>splitext\<close> returns for the base filename is the part
  from its last dot onward, except that it is empty when only dots come before that
  dot (or the name has no dot). The object name begins with the value of
  \<open>file_prefix\<close> and ends with that extension, both as they are, and it has exactly
  as many spaces as the two together: the stem between them has none left.
\<close>

theorem sanitization_only_on_stem:
  "prefix (py_str fp) (resource_id_of fp p (str_uuid u))
   \<and> suffix (snd (splitext (basename p))) (resource_id_of fp p (str_uuid u))
   \<and> count_list (resource_id_of fp p (str_uuid u)) CHR '' '' =
       count_list (py_str fp) CHR '' '' + count_list (snd (splitext (basename p))) CHR '' ''
   \<and> snd (splitext (basename p)) =
       (if set (take (nat (rfind (basename p) CHR ''.'')) (basename p)) \<subseteq> {CHR ''.''} then []
        else from_last_dot (basename p))"
proof -
  let ?mid = "''/'' @ last_two (str_uuid u) @ ''/''
        @ replace_space (fst (splitext (basename p))) @ ''_'' @ str_uuid u"
  have eq: "resource_id_of fp p (str_uuid u) = py_str fp @ ?mid @ snd (splitext (basename p))"
    by (simp add: resource_id_of_eq)
  have "prefix (py_str fp) (resource_id_of fp p (str_uuid u))"
    unfolding eq by simp
  moreover have "suffix (snd (splitext (basename p))) (resource_id_of fp p (str_uuid u))"
    unfolding eq suffix_def by (rule exI [of _ "py_str fp @ ?mid"]) simp
  moreover have "count_list (resource_id_of fp p (str_uuid u)) CHR '' '' =
       count_list (py_str fp) CHR '' '' + count_list (snd (splitext (basename p))) CHR '' ''"
    unfolding eq using count_space_middle [of u "fst (splitext (basename p))"]
    by (simp only: count_list_append)
  moreover have "snd (splitext (basename p)) =
       (if set (take (nat (rfind (basename p) CHR ''.'')) (basename p)) \<subseteq> {CHR ''.''} then []
        else from_last_dot (basename p))"
    by (auto simp add: splitext_basename Let_def)
  ultimately show ?thesis by blast
qed

theorem sanitization_only_on_stem_witness:
  "snd (splitext (basename ''/tmp/My Song.m p3'')) = ''.m p3''
   \<and> from_last_dot (basename ''/tmp/My Song.m p3'') = ''.m p3''
   \<and> resource_id_of (PyStr ''my station'') ''/tmp/My Song.m p3'' (str_uuid (uuid4 0)) =
       ''my station/00/My-Song_00000000-0000-4000-8000-000000000000.m p3''
   \<and> count_list
        (resource_id_of (PyStr ''my station'') ''/tmp/My Song.m p3'' (str_uuid (uuid4 0)))
        CHR '' '' = 2"
proof -
  have a: "snd (splitext (basename ''/tmp/My Song.m p3'')) = ''.m p3''"
    by (simp add: example_spaced_ext_basename example_spaced_ext_splitext)
  have b: "from_last_dot (basename ''/tmp/My Song.m p3'') = ''.m p3''"
    by (simp add: example_spaced_ext_basename from_last_dot_def)
  have c: "count_list (py_str (PyStr ''my station'')) CHR '' '' = 1"
    by (simp add: py_str_def)
  have d: "count_list ''.m p3'' CHR '' '' = 1" by simp
  show ?thesis
    using sanitization_only_on_stem [of "PyStr ''my station''" "''/tmp/My Song.m p3''" "uuid4 0"]
      a b c d example_spaced_ext_resource_id
    by simp
qed

theorem sanitization_only_on_stem_counterexample:
  "basename ''/tmp/.my file'' = ''.my file''
   \<and> from_last_dot ''.my file'' = ''.my file''
   \<and> snd (splitext ''.my file'') = []
   \<and> resource_id_of (PyStr ''stations/42'') ''/tmp/.my file'' (str_uuid (uuid4 0)) =
       ''stations/42/00/.my-file_00000000-0000-4000-8000-000000000000''
   \<and> \<not> suffix (from_last_dot ''.my file'')
         (resource_id_of (PyStr ''stations/42'') ''/tmp/.my file'' (str_uuid (uuid4 0)))"
proof -
  have f: "from_last_dot ''.my file'' = ''.my file''" by (simp add: from_last_dot_def)
  have "\<not> suffix ''.my file'' ''stations/42/00/.my-file_00000000-0000-4000-8000-000000000000''"
    by (simp add: suffix_to_prefix)
  then show ?thesis
    by (simp add: f example_hidden_basename example_hidden_splitext example_hidden_resource_id)
qed

end
